theory Spec2Isabelle
  imports Main "HOL-Library.Sublist"
begin

section \<open>DescriptaStore: the indexed record-store facade\<close>

text \<open>
  A shallow embedding of \<^verbatim>\<open>descriptastorus/DescriptaStore.py\<close>: the classes
  \<^verbatim>\<open>DescriptaStore\<close> and \<^verbatim>\<open>DescriptaStoreIter\<close>. Objects are records, every
  \<^verbatim>\<open>raise\<close> is an \<open>Inl\<close> of a sum, methods that assign to \<^verbatim>\<open>self\<close> return the
  object they leave behind, whether they return or raise.

  The modules the facade is built on (\<^verbatim>\<open>raw.RawStore\<close>, \<^verbatim>\<open>MolFileIndex\<close>,
  \<^verbatim>\<open>kyotocabinet\<close>, \<^verbatim>\<open>descriptors.MakeGenerator\<close>) and the builtins \<^verbatim>\<open>eval\<close> and
  \<^verbatim>\<open>int\<close> are parameters: a collaborator is a record of what its methods answer, a
  builtin is a function argument, and the theorems hold for each of them. Messages
  that the module logs or prints are left out, except the line that the iterator
  prints when a fetch fails.
\<close>

subsection \<open>Exceptions and values\<close>

text \<open>
  The exceptions of the module. \<open>IndexError\<close> keeps a format string with the
  arguments of its \<^verbatim>\<open>%\<close>, so \<^verbatim>\<open>"Name %r not found" % name\<close> is
  \<open>IndexError ''Name %r not found'' [name]\<close>. \<open>Raised\<close> is any exception a
  collaborator or a builtin raises that the module does not name.
\<close>

datatype error =
    StopIteration
  | ValueError string
  | IndexError string "string list"
  | KeyError string
  | AttributeError string
  | TypeError
  | SyntaxError
  | Raised string

text \<open>
  The Python values that the module decodes or unpickles: \<^verbatim>\<open>None\<close>, integers,
  strings, lists, dictionaries with string keys, and \<open>PyObject\<close> for an instance of
  any other class, which has neither item access nor a \<^verbatim>\<open>split\<close> method.
\<close>

datatype pyval =
    PyNone
  | PyInt int
  | PyStr string
  | PyList "pyval list"
  | PyDict "(string \<times> pyval) list"
  | PyObject string

text \<open>
  An instance attribute: \<open>Unassigned\<close> until a statement \<^verbatim>\<open>self.x = ...\<close> has run,
  and reading it then raises \<^verbatim>\<open>AttributeError\<close>.
\<close>

datatype 'a attr = Unassigned | Assigned 'a

subsection \<open>Collaborators\<close>

text \<open>
  Modelled from the spec: \<^verbatim>\<open>raw.Mode\<close> is not among the source files; the spec
  gives an access mode that is read-only or read-write, and the facade only compares
  it with \<^verbatim>\<open>Mode.READONLY\<close>.
\<close>

datatype Mode = READONLY | READWRITE

text \<open>
  \<^verbatim>\<open>raw.RawStore\<close>: the column names, the row count \<^verbatim>\<open>N\<close>, what \<^verbatim>\<open>get\<close> and
  \<^verbatim>\<open>getDict\<close> answer at an index, and whether \<^verbatim>\<open>close\<close> has been called.
\<close>

record 'v RawStore =
  db_colnames :: "string list"
  db_N :: nat
  db_get :: "int \<Rightarrow> error + 'v list"
  db_getDict :: "int \<Rightarrow> error + (string \<times> 'v) list"
  db_closed :: bool

text \<open>
  \<^verbatim>\<open>MolFileIndex\<close>: what \<^verbatim>\<open>get\<close> answers at an index; what one sequential
  iteration with each item unpacked as \<^verbatim>\<open>(moldata, name)\<close> produces, step by step
  (the name of the item, or the exception raised by the iterator or by the unpacking);
  a counter of the sequential iterations started, for the call-count instrumentation
  the spec asks for; and whether \<^verbatim>\<open>close\<close> has been called.
\<close>

record 'r MolFileIndex =
  index_get :: "int \<Rightarrow> error + 'r"
  index_names :: "(error + string) list"
  index_scans :: nat
  index_closed :: bool

text \<open>
  A \<^verbatim>\<open>kyotocabinet.DB\<close> handle: its records, the flag it was opened with and whether
  \<^verbatim>\<open>close\<close> has been called. \<^verbatim>\<open>db[key]\<close> answers \<^verbatim>\<open>None\<close> for a key it does not
  hold. Closing only records the release: reads through a released handle belong to
  the collaborators and are not modelled.
\<close>

datatype kc_flag = OREADER | OWRITER

record kyoto =
  kc_records :: "string \<rightharpoonup> string"
  kc_flag :: kc_flag
  kc_closed :: bool

definition kyoto_open :: "(string \<rightharpoonup> string) \<Rightarrow> Mode \<Rightarrow> kyoto" where
  "kyoto_open recs mode =
     \<lparr>kc_records = recs,
      kc_flag = (if mode = READONLY then OREADER else OWRITER),
      kc_closed = False\<rparr>"

definition kyoto_close :: "kyoto \<Rightarrow> kyoto" where
  "kyoto_close h = h\<lparr>kc_closed := True\<rparr>"

text \<open>
  What \<^verbatim>\<open>self.name\<close> holds once it is not \<^verbatim>\<open>None\<close>: the persistent handle, or the
  dictionary that \<^verbatim>\<open>lookupName\<close> builds.
\<close>

datatype name_index = KyotoDB kyoto | NameDict "string \<rightharpoonup> int"

subsection \<open>The facade\<close>

record ('r, 'v) DescriptaStore =
  desctiporDB :: string
  db :: "'v RawStore"
  index :: "'r MolFileIndex"
  inchikey :: "kyoto option attr"
  name :: "name_index option"
  options :: pyval
  datanames :: "string list"
  dataindices :: "nat list"

text \<open>
  What \<^verbatim>\<open>__init__\<close> finds under \<^verbatim>\<open>dbdir\<close>: the result of constructing the raw store
  and the molecule index, the records of \<^verbatim>\<open>inchikey.kch\<close> and \<^verbatim>\<open>name.kch\<close> when the
  path exists, the result of unpickling \<^verbatim>\<open>__options__\<close> when the path exists, and
  whether the import of \<^verbatim>\<open>kyotocabinet\<close> succeeded.
\<close>

record ('r, 'v) storage =
  raw_RawStore :: "Mode \<Rightarrow> error + 'v RawStore"
  molindex :: "error + 'r MolFileIndex"
  inchikey_kch :: "(string \<rightharpoonup> string) option"
  name_kch :: "(string \<rightharpoonup> string) option"
  options_file :: "(error + pyval) option"
  kyotocabinet :: bool

text \<open>\<^verbatim>\<open>sub in s\<close> on strings: \<open>sub\<close> starts at some position of \<open>s\<close>.\<close>

fun contains :: "string \<Rightarrow> string \<Rightarrow> bool" where
  "contains sub [] = (sub = [])"
| "contains sub (c # cs) = (prefix sub (c # cs) \<or> contains sub cs)"

text \<open>
  \<^verbatim>\<open>[(i,name) for i,name in enumerate(self.db.colnames) if "_calculated" not in name]\<close>
\<close>

definition datacols :: "string list \<Rightarrow> (nat \<times> string) list" where
  "datacols cols =
     filter (\<lambda>(i, nm). \<not> contains ''_calculated'' nm) (enumerate 0 cols)"

definition DescriptaStore_init ::
  "('r, 'v) storage \<Rightarrow> string \<Rightarrow> Mode \<Rightarrow> error + ('r, 'v) DescriptaStore" where
  "DescriptaStore_init fs dbdir mode =
     (case raw_RawStore fs mode of
        Inl e \<Rightarrow> Inl e
      | Inr d \<Rightarrow>
     (case molindex fs of
        Inl e \<Rightarrow> Inl e
      | Inr ix \<Rightarrow>
     (let ik = (case inchikey_kch fs of
                  Some recs \<Rightarrow>
                    if \<not> kyotocabinet fs then Unassigned
                    else Assigned (Some (kyoto_open recs mode))
                | None \<Rightarrow> Assigned None);
          nm = (case name_kch fs of
                  Some recs \<Rightarrow>
                    if \<not> kyotocabinet fs then None
                    else Some (KyotoDB (kyoto_open recs mode))
                | None \<Rightarrow> None)
      in
     (case (case options_file fs of None \<Rightarrow> Inr PyNone | Some r \<Rightarrow> r) of
        Inl e \<Rightarrow> Inl e
      | Inr opts \<Rightarrow>
          Inr \<lparr>desctiporDB = dbdir, db = d, index = ix, inchikey = ik, name = nm,
               options = opts,
               datanames = map snd (datacols (db_colnames d)),
               dataindices = map fst (datacols (db_colnames d))\<rparr>))))"

text \<open>\<^verbatim>\<open>__len__\<close>\<close>

definition len :: "('r, 'v) DescriptaStore \<Rightarrow> nat" where
  "len st = db_N (db st)"

text \<open>\<^verbatim>\<open>getDescriptorNames\<close>\<close>

definition getDescriptorNames :: "('r, 'v) DescriptaStore \<Rightarrow> bool \<Rightarrow> string list" where
  "getDescriptorNames st keepCalculatedFlags =
     (if keepCalculatedFlags then db_colnames (db st) else datanames st)"

text \<open>
  \<^verbatim>\<open>[v[i] for i in self.dataindices]\<close>: an index past the end of the row raises
  \<^verbatim>\<open>IndexError\<close>, and the comprehension stops there.
\<close>

fun pick :: "'v list \<Rightarrow> nat list \<Rightarrow> error + 'v list" where
  "pick v [] = Inr []"
| "pick v (j # js) =
     (if j < length v
      then (case pick v js of Inl e \<Rightarrow> Inl e | Inr r \<Rightarrow> Inr (v ! j # r))
      else Inl (IndexError ''list index out of range'' []))"

text \<open>\<^verbatim>\<open>getDescriptors\<close>\<close>

definition getDescriptors ::
  "('r, 'v) DescriptaStore \<Rightarrow> int \<Rightarrow> bool \<Rightarrow> error + 'v list" where
  "getDescriptors st idx keepCalculatedFlags =
     (case db_get (db st) idx of
        Inl e \<Rightarrow> Inl e
      | Inr v \<Rightarrow> if keepCalculatedFlags then Inr v else pick v (dataindices st))"

text \<open>\<^verbatim>\<open>getDescriptorsAsDict\<close>, \<^verbatim>\<open>descriptors\<close> and \<^verbatim>\<open>molIndex\<close>\<close>

definition getDescriptorsAsDict ::
  "('r, 'v) DescriptaStore \<Rightarrow> int \<Rightarrow> error + (string \<times> 'v) list" where
  "getDescriptorsAsDict st idx = db_getDict (db st) idx"

definition descriptors :: "('r, 'v) DescriptaStore \<Rightarrow> 'v RawStore" where
  "descriptors st = db st"

definition molIndex :: "('r, 'v) DescriptaStore \<Rightarrow> 'r MolFileIndex" where
  "molIndex st = index st"

subsection \<open>Content-key lookup\<close>

text \<open>
  \<^verbatim>\<open>lookupInchiKey\<close>. The attribute \<^verbatim>\<open>self.inchikey\<close> is read first; the stored
  text of a key that is present goes to the builtin \<^verbatim>\<open>eval\<close>, here \<open>py_eval\<close>, and
  what \<^verbatim>\<open>eval\<close> answers or raises is what the method answers or raises.
  \<^verbatim>\<open>eval\<close> runs the text in the scope of the method, where \<^verbatim>\<open>self\<close> is bound, so the
  evaluator takes the facade and gives back the facade that the evaluation leaves;
  the method gives back the answer or the exception, and the facade afterwards.
\<close>

definition lookupInchiKey ::
  "(string \<Rightarrow> ('r, 'v) DescriptaStore \<Rightarrow> (error + pyval) \<times> ('r, 'v) DescriptaStore)
     \<Rightarrow> ('r, 'v) DescriptaStore \<Rightarrow> string \<Rightarrow> (error + pyval) \<times> ('r, 'v) DescriptaStore" where
  "lookupInchiKey py_eval st key =
     (case inchikey st of
        Unassigned \<Rightarrow> (Inl (AttributeError ''inchikey''), st)
      | Assigned None \<Rightarrow> (Inl (ValueError ''Inchi index not available''), st)
      | Assigned (Some h) \<Rightarrow>
          (case kc_records h key of
             None \<Rightarrow> (Inl (KeyError key), st)
           | Some strres \<Rightarrow> py_eval strres st))"

subsection \<open>Name lookup\<close>

text \<open>
  \<^verbatim>\<open>{name:i for i, (moldata, name) in enumerate(self.index)}\<close>: the steps of the
  iteration are consumed in order, a later item of the same name replaces an earlier
  one, and the first exception ends the comprehension.
\<close>

fun scan_names :: "(error + string) list \<Rightarrow> nat \<Rightarrow> (string \<rightharpoonup> int) \<Rightarrow> error + (string \<rightharpoonup> int)" where
  "scan_names [] k d = Inr d"
| "scan_names (Inl e # rest) k d = Inl e"
| "scan_names (Inr nm # rest) k d = scan_names rest (Suc k) (d(nm \<mapsto> int k))"

text \<open>
  \<^verbatim>\<open>int(self.name[name])\<close>: a dictionary raises \<^verbatim>\<open>KeyError\<close> for a missing key and
  holds integers; the persistent handle answers \<^verbatim>\<open>None\<close> for a missing key, which
  \<^verbatim>\<open>int\<close> refuses with \<^verbatim>\<open>TypeError\<close>, and a stored text goes to the builtin
  \<^verbatim>\<open>int\<close>, here \<open>py_int\<close>.
\<close>

definition name_row :: "(string \<Rightarrow> error + int) \<Rightarrow> name_index \<Rightarrow> string \<Rightarrow> error + int" where
  "name_row py_int ni nm =
     (case ni of
        NameDict d \<Rightarrow> (case d nm of None \<Rightarrow> Inl (KeyError nm) | Some k \<Rightarrow> Inr k)
      | KyotoDB h \<Rightarrow> (case kc_records h nm of None \<Rightarrow> Inl TypeError | Some s \<Rightarrow> py_int s))"

text \<open>The second \<^verbatim>\<open>try\<close> of \<^verbatim>\<open>lookupName\<close>: every exception becomes the \<^verbatim>\<open>IndexError\<close>.\<close>

definition try_row :: "(string \<Rightarrow> error + int) \<Rightarrow> name_index \<Rightarrow> string \<Rightarrow> error + int" where
  "try_row py_int ni nm =
     (case name_row py_int ni nm of
        Inl e \<Rightarrow> Inl (IndexError ''Name %r not found'' [nm])
      | Inr row \<Rightarrow> Inr row)"

text \<open>
  \<^verbatim>\<open>lookupName\<close>: the answer or the exception, and the facade afterwards.
  \<^verbatim>\<open>self.name\<close> is assigned only when the comprehension has finished.
\<close>

definition lookupName ::
  "(string \<Rightarrow> error + int) \<Rightarrow> ('r, 'v) DescriptaStore \<Rightarrow> string
     \<Rightarrow> (error + int) \<times> ('r, 'v) DescriptaStore" where
  "lookupName py_int st nm =
     (case name st of
        None \<Rightarrow>
          (let st1 = st\<lparr>index := (index st)\<lparr>index_scans := Suc (index_scans (index st))\<rparr>\<rparr>
           in case scan_names (index_names (index st)) 0 Map.empty of
                Inl e \<Rightarrow> (Inl (ValueError ''Name index not available''), st1)
              | Inr d \<Rightarrow> (try_row py_int (NameDict d) nm, st1\<lparr>name := Some (NameDict d)\<rparr>))
      | Some ni \<Rightarrow> (try_row py_int ni nm, st))"


subsection \<open>Close\<close>

text \<open>
  \<^verbatim>\<open>close\<close>: the raw store and the index are closed first; then \<^verbatim>\<open>self.inchikey\<close>
  and \<^verbatim>\<open>self.name\<close> are read and, when not \<^verbatim>\<open>None\<close>, their \<^verbatim>\<open>close\<close> is called.
  A dictionary has no \<^verbatim>\<open>close\<close>. The collaborators' own \<^verbatim>\<open>close\<close> is taken not to
  raise.
\<close>

definition close :: "('r, 'v) DescriptaStore \<Rightarrow> (error + unit) \<times> ('r, 'v) DescriptaStore" where
  "close st =
     (let st1 = st\<lparr>db := (db st)\<lparr>db_closed := True\<rparr>\<rparr>;
          st2 = st1\<lparr>index := (index st1)\<lparr>index_closed := True\<rparr>\<rparr>
      in case inchikey st2 of
           Unassigned \<Rightarrow> (Inl (AttributeError ''inchikey''), st2)
         | Assigned ik \<Rightarrow>
             (let st3 = (case ik of
                           None \<Rightarrow> st2
                         | Some h \<Rightarrow> st2\<lparr>inchikey := Assigned (Some (kyoto_close h))\<rparr>)
              in case name st3 of
                   None \<Rightarrow> (Inr (), st3)
                 | Some (KyotoDB h) \<Rightarrow> (Inr (), st3\<lparr>name := Some (KyotoDB (kyoto_close h))\<rparr>)
                 | Some (NameDict d) \<Rightarrow> (Inl (AttributeError ''close''), st3)))"

subsection \<open>Descriptor calculator\<close>

text \<open>\<^verbatim>\<open>s.split(",")\<close>\<close>

fun split_on :: "char \<Rightarrow> string \<Rightarrow> string list" where
  "split_on c [] = [[]]"
| "split_on c (x # xs) =
     (if x = c then [] # split_on c xs
      else (case split_on c xs of
              [] \<Rightarrow> [[x]]
            | w # ws \<Rightarrow> (x # w) # ws))"

text \<open>\<^verbatim>\<open>obj['descriptors']\<close>: only a dictionary can be subscripted with a string.\<close>

definition py_getitem :: "pyval \<Rightarrow> string \<Rightarrow> error + pyval" where
  "py_getitem obj key =
     (case obj of
        PyDict d \<Rightarrow> (case map_of d key of None \<Rightarrow> Inl (KeyError key) | Some v \<Rightarrow> Inr v)
      | _ \<Rightarrow> Inl TypeError)"

text \<open>\<^verbatim>\<open>obj.split(",")\<close>: only a string has the method.\<close>

definition py_split :: "pyval \<Rightarrow> error + string list" where
  "py_split obj =
     (case obj of
        PyStr s \<Rightarrow> Inr (split_on CHR '','' s)
      | _ \<Rightarrow> Inl (AttributeError ''split''))"

text \<open>
  The body of the \<^verbatim>\<open>try\<close>: \<^verbatim>\<open>MakeGenerator(self.options['descriptors'].split(","))\<close>.
  The module global \<^verbatim>\<open>MakeGenerator\<close> is \<^verbatim>\<open>None\<close> when the import of the descriptor
  engine failed, and calling \<^verbatim>\<open>None\<close> raises \<^verbatim>\<open>TypeError\<close> after the argument has
  been evaluated.
\<close>

definition make_from_options ::
  "(string list \<Rightarrow> error + 'c) option \<Rightarrow> pyval \<Rightarrow> error + 'c" where
  "make_from_options MakeGenerator opts =
     (case py_getitem opts ''descriptors'' of
        Inl e \<Rightarrow> Inl e
      | Inr v \<Rightarrow>
     (case py_split v of
        Inl e \<Rightarrow> Inl e
      | Inr names \<Rightarrow>
     (case MakeGenerator of
        None \<Rightarrow> Inl TypeError
      | Some gen \<Rightarrow> gen names)))"

text \<open>\<^verbatim>\<open>getDescriptorCalculator\<close>: the bare \<^verbatim>\<open>except\<close> answers \<^verbatim>\<open>None\<close>.\<close>

definition getDescriptorCalculator ::
  "(string list \<Rightarrow> error + 'c) option \<Rightarrow> ('r, 'v) DescriptaStore \<Rightarrow> error + 'c option" where
  "getDescriptorCalculator MakeGenerator st =
     (case make_from_options MakeGenerator (options st) of
        Inl e \<Rightarrow> Inr None
      | Inr g \<Rightarrow> Inr (Some g))"

subsection \<open>Sequential iteration\<close>

record ('r, 'v) DescriptaStoreIter =
  iter_store :: "('r, 'v) DescriptaStore"
  iter_i :: int

text \<open>\<^verbatim>\<open>__iter__\<close>, that is \<^verbatim>\<open>DescriptaStoreIter.__init__\<close>\<close>

definition iter :: "('r, 'v) DescriptaStore \<Rightarrow> ('r, 'v) DescriptaStoreIter" where
  "iter st = \<lparr>iter_store = st, iter_i = - 1\<rparr>"

text \<open>
  The body of the \<^verbatim>\<open>try\<close> of \<^verbatim>\<open>next\<close>: the tuple's components are evaluated from
  left to right.
\<close>

definition fetch :: "('r, 'v) DescriptaStore \<Rightarrow> int \<Rightarrow> error + ('r \<times> 'v list)" where
  "fetch st k =
     (case index_get (index st) k of
        Inl e \<Rightarrow> Inl e
      | Inr r \<Rightarrow>
     (case getDescriptors st k False of
        Inl e \<Rightarrow> Inl e
      | Inr v \<Rightarrow> Inr (r, v)))"

text \<open>
  \<^verbatim>\<open>next\<close>: the answer or the exception, the iterator afterwards, and the lines
  printed, each the string and the integer handed to \<^verbatim>\<open>print\<close>.
\<close>

definition "next" ::
  "('r, 'v) DescriptaStoreIter
     \<Rightarrow> (error + ('r \<times> 'v list)) \<times> ('r, 'v) DescriptaStoreIter \<times> (string \<times> int) list" where
  "next it =
     (let it1 = it\<lparr>iter_i := iter_i it + 1\<rparr>
      in if iter_i it1 = int (len (iter_store it1))
         then (Inl StopIteration, it1, [])
         else (case fetch (iter_store it1) (iter_i it1) of
                 Inl e \<Rightarrow> (Inl e, it1, [(''== DescriptaStoreIter Failed at index'', iter_i it1)])
               | Inr p \<Rightarrow> (Inr p, it1, [])))"

text \<open>
  How a \<^verbatim>\<open>for\<close> statement ends: the iterator raised \<^verbatim>\<open>StopIteration\<close>, or another
  exception left the loop.
\<close>

datatype ending = Exhausted | Failed error

text \<open>
  The calls of \<^verbatim>\<open>next\<close> that a \<^verbatim>\<open>for\<close> statement of Python 2 makes on the iterator:
  \<^verbatim>\<open>next\<close> is called until it raises; the pairs received, how the loop ended and
  what was printed. Nothing in \<^verbatim>\<open>next\<close> bounds the number of calls on an iterator
  that has gone past the row count, so the loop is a partial function.
\<close>

partial_function (option) for_loop ::
  "('r, 'v) DescriptaStoreIter \<Rightarrow> ('r \<times> 'v list) list \<Rightarrow> (string \<times> int) list
     \<Rightarrow> (('r \<times> 'v list) list \<times> ending \<times> (string \<times> int) list) option" where
  "for_loop it acc out =
     (case next it of
        (Inl e, it1, printed) \<Rightarrow>
          Some (acc, if e = StopIteration then Exhausted else Failed e, out @ printed)
      | (Inr p, it1, printed) \<Rightarrow> for_loop it1 (acc @ [p]) (out @ printed))"

text \<open>
  The iterator protocol of the interpreter. The \<^verbatim>\<open>for\<close> statement of Python 2 takes
  what \<^verbatim>\<open>__iter__\<close> returns and calls its \<^verbatim>\<open>next\<close>. The one of Python 3 asks for
  \<^verbatim>\<open>__next__\<close>, which \<^verbatim>\<open>DescriptaStoreIter\<close> does not define: there \<^verbatim>\<open>iter(store)\<close>
  raises \<^verbatim>\<open>TypeError\<close> before \<^verbatim>\<open>next\<close> is ever called.
\<close>

datatype protocol = Python2 | Python3

text \<open>\<^verbatim>\<open>for moldata, descriptors in store\<close>\<close>

definition iterate ::
  "protocol \<Rightarrow> ('r, 'v) DescriptaStore
     \<Rightarrow> (('r \<times> 'v list) list \<times> ending \<times> (string \<times> int) list) option" where
  "iterate proto st =
     (case proto of
        Python2 \<Rightarrow> for_loop (iter st) [] []
      | Python3 \<Rightarrow> Some ([], Failed TypeError, []))"

subsection \<open>Calls on an open facade\<close>

text \<open>
  The methods of the facade, and the facade each leaves behind. Only \<^verbatim>\<open>close\<close> and
  \<^verbatim>\<open>lookupName\<close> assign to \<^verbatim>\<open>self\<close> or to an object it holds, and
  \<^verbatim>\<open>lookupInchiKey\<close> leaves what the evaluation of the stored text leaves.
\<close>

datatype call =
    Call_close
  | Call_len
  | Call_iter
  | Call_getDescriptorCalculator
  | Call_getDescriptorNames bool
  | Call_getDescriptors int bool
  | Call_getDescriptorsAsDict int
  | Call_descriptors
  | Call_molIndex
  | Call_lookupName string
  | Call_lookupInchiKey string




subsection \<open>Contracts of the collaborators\<close>

text \<open>
  Modelled from the spec: \<^verbatim>\<open>raw.RawStore\<close> is not among the source files. The spec's
  data model gives a descriptor row one value per declared column, for every ordinal
  from 0 to the row count.
\<close>

definition raw_contract :: "'v RawStore \<Rightarrow> bool" where
  "raw_contract d =
     (\<forall>k. 0 \<le> k \<and> k < int (db_N d)
          \<longrightarrow> (\<exists>v. db_get d k = Inr v \<and> length v = length (db_colnames d)))"

subsection \<open>Example stores\<close>

text \<open>
  The store of the spec's scenario: two rows, the data columns \<^verbatim>\<open>MW\<close> and
  \<^verbatim>\<open>LogP\<close>, the flag column \<^verbatim>\<open>MW_calculated\<close>, records named \<^verbatim>\<open>A\<close> and \<^verbatim>\<open>B\<close>,
  no key store and no options file.
\<close>

definition example_db :: "string RawStore" where
  "example_db =
     \<lparr>db_colnames = [''MW'', ''LogP'', ''MW_calculated''],
      db_N = 2,
      db_get = (\<lambda>k. if k = 0 then Inr [''12.3'', ''1.1'', ''True'']
                     else if k = 1 then Inr [''4.5'', ''0.2'', ''False'']
                     else Inl (Raised ''out of range'')),
      db_getDict = (\<lambda>k. Inl (Raised ''not used'')),
      db_closed = False\<rparr>"

definition example_index :: "(string \<times> string) MolFileIndex" where
  "example_index =
     \<lparr>index_get = (\<lambda>k. if k = 0 then Inr (''CCO'', ''A'')
                        else if k = 1 then Inr (''CCN'', ''B'')
                        else Inl (Raised ''out of range'')),
      index_names = [Inr ''A'', Inr ''B''],
      index_scans = 0,
      index_closed = False\<rparr>"

definition example_fs :: "(string \<times> string, string) storage" where
  "example_fs =
     \<lparr>raw_RawStore = (\<lambda>m. Inr example_db),
      molindex = Inr example_index,
      inchikey_kch = None,
      name_kch = None,
      options_file = None,
      kyotocabinet = True\<rparr>"

definition example_store :: "(string \<times> string, string) DescriptaStore" where
  "example_store =
     \<lparr>desctiporDB = ''store'', db = example_db, index = example_index,
      inchikey = Assigned None, name = None, options = PyNone,
      datanames = [''MW'', ''LogP''], dataindices = [0, 1]\<rparr>"

text \<open>
  The builtin \<^verbatim>\<open>int\<close> for the examples: a non-empty text of ASCII digits is read in
  base ten, and any other text is refused with \<^verbatim>\<open>ValueError\<close>, as Python refuses
  \<^verbatim>\<open>'abc'\<close>. (Python's \<^verbatim>\<open>int\<close> also accepts a sign and surrounding blanks; the
  examples hold no such text.)
\<close>

definition decimal_int :: "string \<Rightarrow> error + int" where
  "decimal_int s =
     (if s \<noteq> [] \<and> list_all (\<lambda>c. 48 \<le> (of_char c :: nat) \<and> (of_char c :: nat) \<le> 57) s
      then Inr (foldl (\<lambda>a c. 10 * a + (int (of_char c) - 48)) 0 s)
      else Inl (ValueError ''invalid literal for int()''))"

text \<open>The example store with a persistent name index, one of whose values is not a number.\<close>

definition named_store :: "(string \<times> string, string) DescriptaStore" where
  "named_store =
     example_store\<lparr>name := Some (KyotoDB (kyoto_open [''A'' \<mapsto> ''0'', ''B'' \<mapsto> ''1'', ''C'' \<mapsto> ''abc''] READONLY))\<rparr>"

text \<open>The example store with an options file that names two descriptor sets.\<close>

definition options_store :: "(string \<times> string, string) DescriptaStore" where
  "options_store = example_store\<lparr>options := PyDict [(''descriptors'', PyStr ''Morgan3Counts,RDKit2D'')]\<rparr>"


text \<open>
  Two variants of the example store whose raw store answers a row shorter than the
  column list, at ordinal 0 and at ordinal 1.
\<close>

definition short0_store :: "(string \<times> string, string) DescriptaStore" where
  "short0_store =
     example_store\<lparr>db := example_db
       \<lparr>db_get := (\<lambda>k. if k = 0 then Inr [''12.3'']
                       else if k = 1 then Inr [''4.5'', ''0.2'', ''False'']
                       else Inl (Raised ''out of range''))\<rparr>\<rparr>"

definition short1_store :: "(string \<times> string, string) DescriptaStore" where
  "short1_store =
     example_store\<lparr>db := example_db
       \<lparr>db_get := (\<lambda>k. if k = 0 then Inr [''12.3'', ''1.1'', ''True'']
                       else if k = 1 then Inr [''4.5'']
                       else Inl (Raised ''out of range''))\<rparr>\<rparr>"

text \<open>
  The builtin \<^verbatim>\<open>eval\<close> at the stored texts of the examples: \<^verbatim>\<open>eval('[3, 7, 9]')\<close> is
  the list of the three integers, \<^verbatim>\<open>eval('7')\<close> is the integer 7, both leaving the
  facade as it is, and \<^verbatim>\<open>eval('self.dataindices.append(7)')\<close> appends 7 to the list
  that \<^verbatim>\<open>self.dataindices\<close> holds and answers \<^verbatim>\<open>None\<close>. No example evaluates another
  text; the function answers \<^verbatim>\<open>SyntaxError\<close> there to be total.
\<close>

definition example_eval ::
  "string \<Rightarrow> ('r, 'v) DescriptaStore \<Rightarrow> (error + pyval) \<times> ('r, 'v) DescriptaStore" where
  "example_eval s st =
     (if s = ''[3, 7, 9]'' then (Inr (PyList [PyInt 3, PyInt 7, PyInt 9]), st)
      else if s = ''7'' then (Inr (PyInt 7), st)
      else if s = ''self.dataindices.append(7)''
        then (Inr PyNone, st\<lparr>dataindices := dataindices st @ [7]\<rparr>)
      else (Inl SyntaxError, st))"


text \<open>
  The example store over an index whose \<^verbatim>\<open>get\<close> raises \<^verbatim>\<open>StopIteration\<close> at the first
  ordinal.
\<close>

definition stopping_store :: "(string \<times> string, string) DescriptaStore" where
  "stopping_store =
     example_store\<lparr>index := example_index
       \<lparr>index_get := (\<lambda>k. if k = 0 then Inl StopIteration
                          else if k = 1 then Inr (''CCN'', ''B'')
                          else Inl (Raised ''out of range''))\<rparr>\<rparr>"

text \<open>A decoded value that is a collection of ordinals: a list of non-negative integers.\<close>

fun is_ordinals :: "pyval \<Rightarrow> bool" where
  "is_ordinals (PyList xs) = list_all (\<lambda>x. case x of PyInt k \<Rightarrow> 0 \<le> k | _ \<Rightarrow> False) xs"
| "is_ordinals v = False"

text \<open>
  The example store with a content-key index: one key stored with the text of a list
  of ordinals, one with the text of a bare integer.
\<close>

definition keyed_store :: "(string \<times> string, string) DescriptaStore" where
  "keyed_store =
     example_store\<lparr>inchikey := Assigned (Some (kyoto_open
       [''BCWYEXBNOWJQJV-UHFFFAOYSA-N'' \<mapsto> ''[3, 7, 9]'',
        ''LFQSCWFLJHTTHZ-UHFFFAOYSA-N'' \<mapsto> ''7''] READONLY))\<rparr>"

text \<open>
  A store directory that holds \<^verbatim>\<open>inchikey.kch\<close>, opened where \<^verbatim>\<open>kyotocabinet\<close> cannot
  be imported, and the facade that \<^verbatim>\<open>__init__\<close> builds from it.
\<close>

definition nokyoto_fs :: "(string \<times> string, string) storage" where
  "nokyoto_fs =
     example_fs\<lparr>inchikey_kch := Some [''BCWYEXBNOWJQJV-UHFFFAOYSA-N'' \<mapsto> ''[3, 7, 9]''],
                kyotocabinet := False\<rparr>"

definition nokyoto_store :: "(string \<times> string, string) DescriptaStore" where
  "nokyoto_store = example_store\<lparr>inchikey := Unassigned\<rparr>"

section \<open>Properties\<close>

subsection \<open>The data-column partition\<close>



lemma enumerate_map_nth: "enumerate 0 cols = map (\<lambda>i. (i, cols ! i)) [0..<length cols]"
  by (rule nth_equalityI) (simp_all add: nth_enumerate_eq)

lemma dataindices_filter:
  "map fst (datacols cols) = filter (\<lambda>i. \<not> contains ''_calculated'' (cols ! i)) [0..<length cols]"
  by (simp add: datacols_def enumerate_map_nth filter_map comp_def)

lemma datanames_nth:
  "map snd (datacols cols) = map ((!) cols) (map fst (datacols cols))"
  by (simp add: datacols_def enumerate_map_nth filter_map comp_def)


lemma dataindices_sorted: "sorted_wrt (<) (map fst (datacols cols))"
  by (simp add: dataindices_filter sorted_wrt_filter sorted_wrt_upt)

lemma dataindices_bound: "j \<in> set (map fst (datacols cols)) \<Longrightarrow> j < length cols"
  by (simp add: dataindices_filter)

lemma init_fields:
  assumes "DescriptaStore_init fs dbdir mode = Inr st"
  shows "dataindices st = map fst (datacols (db_colnames (db st)))"
    and "datanames st = map snd (datacols (db_colnames (db st)))"
  using assms
  by (auto simp: DescriptaStore_init_def Let_def split: sum.splits)








subsection \<open>The example store\<close>

lemma datacols_example:
  "datacols [''MW'', ''LogP'', ''MW_calculated''] = [(0, ''MW''), (1, ''LogP'')]"
  by (simp add: datacols_def)

lemma example_init: "DescriptaStore_init example_fs ''store'' READONLY = Inr example_store"
  by (simp add: DescriptaStore_init_def example_fs_def example_store_def example_db_def
      datacols_example)

lemma example_contract: "raw_contract example_db"
proof -
  have "k = 0 \<or> k = 1" if "0 \<le> k" "k < 2" for k :: int
    using that by arith
  then show ?thesis
    by (auto simp: raw_contract_def example_db_def)
qed





subsection \<open>Descriptor retrieval and column names\<close>

lemma pick_map: "\<forall>j \<in> set js. j < length v \<Longrightarrow> pick v js = Inr (map ((!) v) js)"
  by (induction js) simp_all

lemma pick_short: "\<not> (\<forall>j \<in> set js. j < length v) \<Longrightarrow> pick v js = Inl (IndexError ''list index out of range'' [])"
  by (induction js) (auto split: sum.splits)

lemma map_nth_filter_upt:
  "map ((!) v) (filter P [0..<length v]) = nths v {i. P i}"
proof -
  have "map ((!) v) (filter P [0..<length v]) = map fst (filter (\<lambda>p. P (snd p)) (map (\<lambda>i. (v ! i, i)) [0..<length v]))"
    by (simp add: filter_map comp_def)
  also have "map (\<lambda>i. (v ! i, i)) [0..<length v] = zip v [0..<length v]"
    by (rule nth_equalityI) simp_all
  finally show ?thesis by (simp add: nths_def)
qed

lemma subseq_map_nth_filter: "subseq (map ((!) v) (filter P [0..<length v])) v"
  unfolding map_nth_filter_upt subseq_conv_nths by blast

text \<open>
  C5. On an opened store whose raw store keeps its contract, for every ordinal
  \<open>0 \<le> k < N\<close>: \<^verbatim>\<open>getDescriptors(k)\<close> answers a subsequence of the row that
  \<^verbatim>\<open>getDescriptors(k, True)\<close> answers, picked at the strictly increasing cached
  positions, with as many values as there are data-column names; and for either flag
  \<^verbatim>\<open>getDescriptorNames\<close> has the length of the values, the \<open>n\<close>-th name being the
  name of the column the \<open>n\<close>-th value is taken from.
\<close>

theorem descriptors_match_names:
  assumes "DescriptaStore_init fs dbdir mode = Inr st"
      and "raw_contract (db st)"
      and "0 \<le> k" and "k < int (len st)"
  shows "\<exists>v w. getDescriptors st k True = Inr v
             \<and> getDescriptors st k False = Inr w
             \<and> subseq w v
             \<and> length w = length (datanames st)
             \<and> length w \<le> length v
             \<and> length (getDescriptorNames st True) = length v
             \<and> length (getDescriptorNames st False) = length w
             \<and> sorted_wrt (<) (dataindices st)
             \<and> (\<forall>n < length w.
                   dataindices st ! n < length v
                 \<and> w ! n = v ! (dataindices st ! n)
                 \<and> getDescriptorNames st False ! n
                     = getDescriptorNames st True ! (dataindices st ! n))"
proof -
  let ?cols = "db_colnames (db st)"
  note f = init_fields [OF assms(1)]
  from assms(2-4) obtain v where v: "db_get (db st) k = Inr v" "length v = length ?cols"
    by (auto simp: raw_contract_def len_def)
  let ?w = "map ((!) v) (dataindices st)"
  have bound: "\<forall>j \<in> set (dataindices st). j < length v"
    using dataindices_bound f(1) v(2) by metis
  have full: "getDescriptors st k True = Inr v"
    by (simp add: getDescriptors_def v(1))
  have part: "getDescriptors st k False = Inr ?w"
    by (simp add: getDescriptors_def v(1) pick_map [OF bound])
  have sub: "subseq ?w v"
    using subseq_map_nth_filter [of v "\<lambda>i. \<not> contains ''_calculated'' (?cols ! i)"]
    by (simp add: f(1) dataindices_filter v(2))
  have len: "length ?w = length (datanames st)"
    by (simp add: f)
  have le: "length ?w \<le> length v"
    using sub by (rule list_emb_length)
  have n1: "length (getDescriptorNames st True) = length v"
    by (simp add: getDescriptorNames_def v(2))
  have n2: "length (getDescriptorNames st False) = length ?w"
    by (simp add: getDescriptorNames_def f)
  have srt: "sorted_wrt (<) (dataindices st)"
    by (simp add: f(1) dataindices_sorted)
  have pos: "\<forall>n < length ?w.
                   dataindices st ! n < length v
                 \<and> ?w ! n = v ! (dataindices st ! n)
                 \<and> getDescriptorNames st False ! n
                     = getDescriptorNames st True ! (dataindices st ! n)"
    using bound by (simp add: getDescriptorNames_def f datanames_nth)
  from full part sub len le n1 n2 srt pos show ?thesis by blast
qed

theorem descriptors_match_names_witness:
  "DescriptaStore_init example_fs ''store'' READONLY = Inr example_store
   \<and> raw_contract (db example_store)
   \<and> (0::int) \<le> 0 \<and> (0::int) < int (len example_store)
   \<and> getDescriptors example_store 0 True = Inr [''12.3'', ''1.1'', ''True'']
   \<and> getDescriptors example_store 0 False = Inr [''12.3'', ''1.1'']
   \<and> getDescriptorNames example_store True = [''MW'', ''LogP'', ''MW_calculated'']
   \<and> getDescriptorNames example_store False = [''MW'', ''LogP'']
   \<and> subseq [''12.3'', ''1.1''] [''12.3'', ''1.1'', ''True'']"
proof -
  have c: "raw_contract (db example_store)"
    using example_contract by (simp add: example_store_def)
  have r: "(0::int) < int (len example_store)"
    by (simp add: len_def example_store_def example_db_def)
  have z: "(0::int) \<le> 0" by simp
  from descriptors_match_names [OF example_init c z r]
  obtain v w where "getDescriptors example_store 0 True = Inr v"
    "getDescriptors example_store 0 False = Inr w" "subseq w v"
    by blast
  moreover have "getDescriptors example_store 0 True = Inr [''12.3'', ''1.1'', ''True'']"
    by (simp add: getDescriptors_def example_store_def example_db_def)
  moreover have "getDescriptors example_store 0 False = Inr [''12.3'', ''1.1'']"
    by (simp add: getDescriptors_def example_store_def example_db_def)
  moreover have "getDescriptorNames example_store True = [''MW'', ''LogP'', ''MW_calculated'']"
    "getDescriptorNames example_store False = [''MW'', ''LogP'']"
    by (simp_all add: getDescriptorNames_def example_store_def example_db_def)
  ultimately show ?thesis using example_init c r by simp
qed

subsection \<open>Descriptor calculator\<close>

text \<open>
  C8. \<^verbatim>\<open>getDescriptorCalculator\<close> never raises: whatever the options and the
  descriptor engine are, it answers. It answers \<^verbatim>\<open>None\<close> whenever the construction
  raises, in particular when no options were unpickled, when the options have no
  \<^verbatim>\<open>descriptors\<close> entry, when the engine was not imported and when the engine
  itself raises; and it answers the engine's calculator otherwise.
\<close>

theorem calculator_never_raises:
  "(\<forall>e. getDescriptorCalculator MakeGenerator st \<noteq> Inl e)
   \<and> (\<forall>e. make_from_options MakeGenerator (options st) = Inl e
          \<longrightarrow> getDescriptorCalculator MakeGenerator st = Inr None)
   \<and> (options st = PyNone \<longrightarrow> getDescriptorCalculator MakeGenerator st = Inr None)
   \<and> (\<forall>d. options st = PyDict d \<and> map_of d ''descriptors'' = None
          \<longrightarrow> getDescriptorCalculator MakeGenerator st = Inr None)
   \<and> (MakeGenerator = None \<longrightarrow> getDescriptorCalculator MakeGenerator st = Inr None)
   \<and> (\<forall>gen d s e. MakeGenerator = Some gen \<and> options st = PyDict d
          \<and> map_of d ''descriptors'' = Some (PyStr s) \<and> gen (split_on CHR '','' s) = Inl e
          \<longrightarrow> getDescriptorCalculator MakeGenerator st = Inr None)
   \<and> (\<forall>gen d s g. MakeGenerator = Some gen \<and> options st = PyDict d
          \<and> map_of d ''descriptors'' = Some (PyStr s) \<and> gen (split_on CHR '','' s) = Inr g
          \<longrightarrow> getDescriptorCalculator MakeGenerator st = Inr (Some g))"
  by (auto simp: getDescriptorCalculator_def make_from_options_def py_getitem_def py_split_def
      split: sum.splits option.splits pyval.splits)

theorem calculator_never_raises_witness:
  "options example_store = PyNone
   \<and> getDescriptorCalculator (None :: (string list \<Rightarrow> error + string list) option) example_store
       = Inr None
   \<and> getDescriptorCalculator (Some (\<lambda>ns. Inl (Raised ''no such descriptor'') :: error + string list))
         options_store = Inr None
   \<and> getDescriptorCalculator (Some (\<lambda>ns. Inr ns)) options_store
       = Inr (Some [''Morgan3Counts'', ''RDKit2D''])"
proof -
  have o: "options example_store = PyNone"
    by (simp add: example_store_def)
  have d: "options options_store = PyDict [(''descriptors'', PyStr ''Morgan3Counts,RDKit2D'')]"
    by (simp add: options_store_def)
  have m: "map_of [(''descriptors'', PyStr ''Morgan3Counts,RDKit2D'')] ''descriptors''
             = Some (PyStr ''Morgan3Counts,RDKit2D'')"
    by simp
  have s: "split_on CHR '','' ''Morgan3Counts,RDKit2D'' = [''Morgan3Counts'', ''RDKit2D'']"
    by simp
  from calculator_never_raises
         [of "None :: (string list \<Rightarrow> error + string list) option" example_store] o
  have 1: "getDescriptorCalculator (None :: (string list \<Rightarrow> error + string list) option)
             example_store = Inr None"
    by blast
  let ?bad = "\<lambda>ns::string list. (Inl (Raised ''no such descriptor'') :: error + string list)"
  have "?bad (split_on CHR '','' ''Morgan3Counts,RDKit2D'') = Inl (Raised ''no such descriptor'')"
    by simp
  with calculator_never_raises [of "Some ?bad" options_store] d m
  have 2: "getDescriptorCalculator (Some ?bad) options_store = Inr None"
    by blast
  let ?ok = "\<lambda>ns::string list. (Inr ns :: error + string list)"
  have "?ok (split_on CHR '','' ''Morgan3Counts,RDKit2D'') = Inr [''Morgan3Counts'', ''RDKit2D'']"
    using s by simp
  with calculator_never_raises [of "Some ?ok" options_store] d m
  have 3: "getDescriptorCalculator (Some ?ok) options_store
             = Inr (Some [''Morgan3Counts'', ''RDKit2D''])"
    by blast
  from o 1 2 3 show ?thesis by blast
qed

subsection \<open>Name lookup\<close>

lemma try_row_error:
  "try_row py_int ni nm = Inl e \<Longrightarrow> e = IndexError ''Name %r not found'' [nm]"
  by (auto simp: try_row_def split: sum.splits)

lemma try_row_failed:
  "name_row py_int ni nm = Inl e \<Longrightarrow> try_row py_int ni nm = Inl (IndexError ''Name %r not found'' [nm])"
  by (simp add: try_row_def)

text \<open>
  C9. Once a name mapping is there (\<^verbatim>\<open>self.name\<close> is set, or the fallback scan
  succeeds in this call), the only exception \<^verbatim>\<open>lookupName\<close> raises is the
  \<^verbatim>\<open>IndexError\<close> that names the key: for a stored text that \<^verbatim>\<open>int\<close> refuses, with
  whatever exception, as for a key that the handle or the dictionary does not hold.
\<close>

theorem lookupName_decode_failure_is_not_found:
  assumes "name st \<noteq> None \<or> (\<exists>d. scan_names (index_names (index st)) 0 Map.empty = Inr d)"
  shows "(\<forall>e. fst (lookupName py_int st nm) = Inl e \<longrightarrow> e = IndexError ''Name %r not found'' [nm])
       \<and> (\<forall>h s e. name st = Some (KyotoDB h) \<and> kc_records h nm = Some s \<and> py_int s = Inl e
             \<longrightarrow> fst (lookupName py_int st nm) = Inl (IndexError ''Name %r not found'' [nm]))
       \<and> (\<forall>h. name st = Some (KyotoDB h) \<and> kc_records h nm = None
             \<longrightarrow> fst (lookupName py_int st nm) = Inl (IndexError ''Name %r not found'' [nm]))
       \<and> (\<forall>d. name st = Some (NameDict d) \<and> d nm = None
             \<longrightarrow> fst (lookupName py_int st nm) = Inl (IndexError ''Name %r not found'' [nm]))"
proof -
  have 1: "\<forall>e. fst (lookupName py_int st nm) = Inl e \<longrightarrow> e = IndexError ''Name %r not found'' [nm]"
    using assms
    by (auto simp: lookupName_def Let_def split: option.splits sum.splits dest: try_row_error)
  have 2: "\<forall>h s e. name st = Some (KyotoDB h) \<and> kc_records h nm = Some s \<and> py_int s = Inl e
             \<longrightarrow> fst (lookupName py_int st nm) = Inl (IndexError ''Name %r not found'' [nm])"
    by (auto simp: lookupName_def try_row_def name_row_def)
  have 3: "\<forall>h. name st = Some (KyotoDB h) \<and> kc_records h nm = None
             \<longrightarrow> fst (lookupName py_int st nm) = Inl (IndexError ''Name %r not found'' [nm])"
    by (auto simp: lookupName_def try_row_def name_row_def)
  have 4: "\<forall>d. name st = Some (NameDict d) \<and> d nm = None
             \<longrightarrow> fst (lookupName py_int st nm) = Inl (IndexError ''Name %r not found'' [nm])"
    by (auto simp: lookupName_def try_row_def name_row_def)
  from 1 2 3 4 show ?thesis by blast
qed

theorem lookupName_decode_failure_witness:
  "name named_store \<noteq> None
   \<and> decimal_int ''abc'' = Inl (ValueError ''invalid literal for int()'')
   \<and> fst (lookupName decimal_int named_store ''C'') = Inl (IndexError ''Name %r not found'' [''C''])
   \<and> fst (lookupName decimal_int named_store ''D'') = Inl (IndexError ''Name %r not found'' [''D''])
   \<and> fst (lookupName decimal_int named_store ''B'') = Inr 1"
proof -
  let ?h = "kyoto_open [''A'' \<mapsto> ''0'', ''B'' \<mapsto> ''1'', ''C'' \<mapsto> ''abc''] READONLY"
  have n: "name named_store = Some (KyotoDB ?h)"
    by (simp add: named_store_def)
  then have a: "name named_store \<noteq> None \<or>
      (\<exists>d. scan_names (index_names (index named_store)) 0 Map.empty = Inr d)"
    by simp
  have c: "kc_records ?h ''C'' = Some ''abc''"
    by (simp add: kyoto_open_def)
  have d: "kc_records ?h ''D'' = None"
    by (simp add: kyoto_open_def)
  have bad: "decimal_int ''abc'' = Inl (ValueError ''invalid literal for int()'')"
    by (simp add: decimal_int_def)
  from lookupName_decode_failure_is_not_found [OF a, of decimal_int "''C''"] n c bad
  have 1: "fst (lookupName decimal_int named_store ''C'') = Inl (IndexError ''Name %r not found'' [''C''])"
    by blast
  from lookupName_decode_failure_is_not_found [OF a, of decimal_int "''D''"] n d
  have 2: "fst (lookupName decimal_int named_store ''D'') = Inl (IndexError ''Name %r not found'' [''D''])"
    by blast
  have 3: "fst (lookupName decimal_int named_store ''B'') = Inr 1"
    by (simp add: lookupName_def try_row_def name_row_def named_store_def kyoto_open_def
        decimal_int_def)
  from n bad 1 2 3 show ?thesis by simp
qed











subsection \<open>Sequential iteration\<close>

lemma next_stop:
  "iter_i it + 1 = int (len (iter_store it)) \<Longrightarrow>
     next it = (Inl StopIteration, it\<lparr>iter_i := iter_i it + 1\<rparr>, [])"
  by (simp add: next_def Let_def)

lemma next_row:
  "iter_i it + 1 \<noteq> int (len (iter_store it)) \<Longrightarrow> fetch (iter_store it) (iter_i it + 1) = Inr p \<Longrightarrow>
     next it = (Inr p, it\<lparr>iter_i := iter_i it + 1\<rparr>, [])"
  by (simp add: next_def Let_def)

lemma next_failed:
  "iter_i it + 1 \<noteq> int (len (iter_store it)) \<Longrightarrow> fetch (iter_store it) (iter_i it + 1) = Inl e \<Longrightarrow>
     next it = (Inl e, it\<lparr>iter_i := iter_i it + 1\<rparr>,
                [(''== DescriptaStoreIter Failed at index'', iter_i it + 1)])"
  by (simp add: next_def Let_def)

text \<open>
  The loop from any position: induction on the number of rows left, with the pairs
  received so far generalised.
\<close>

lemma for_loop_exhausts:
  assumes "length ps = len st" and "\<forall>k<len st. fetch st (int k) = Inr (ps ! k)"
    and "j \<le> len st"
  shows "for_loop \<lparr>iter_store = st, iter_i = int j - 1\<rparr> acc out
           = Some (acc @ drop j ps, Exhausted, out)"
  using assms(3)
proof (induction "len st - j" arbitrary: j acc)
  case 0
  then have j: "j = len st" by simp
  have "next \<lparr>iter_store = st, iter_i = int j - 1\<rparr>
          = (Inl StopIteration, \<lparr>iter_store = st, iter_i = int j - 1\<rparr>\<lparr>iter_i := int j - 1 + 1\<rparr>, [])"
    using next_stop [of "\<lparr>iter_store = st, iter_i = int j - 1\<rparr>"] j by simp
  then show ?case
    using assms(1) j by (subst for_loop.simps) simp
next
  case (Suc d)
  then have j: "j < len st" by simp
  let ?it = "\<lparr>iter_store = st, iter_i = int j - 1\<rparr>"
  have f: "fetch st (int j) = Inr (ps ! j)"
    using assms(2) j by simp
  have n: "next ?it = (Inr (ps ! j), \<lparr>iter_store = st, iter_i = int (Suc j) - 1\<rparr>, [])"
    using next_row [of ?it "ps ! j"] f j by simp
  have ih: "for_loop \<lparr>iter_store = st, iter_i = int (Suc j) - 1\<rparr> (acc @ [ps ! j]) out
              = Some ((acc @ [ps ! j]) @ drop (Suc j) ps, Exhausted, out)"
    using Suc.hyps(1) [of "Suc j" "acc @ [ps ! j]"] Suc.hyps(2) j by simp
  have d: "ps ! j # drop (Suc j) ps = drop j ps"
    using j assms(1) by (simp add: Cons_nth_drop_Suc)
  show ?case
    using n ih d by (subst for_loop.simps) simp
qed

lemma for_loop_fails:
  assumes "m < len st" and "length ps = m" and "\<forall>k<m. fetch st (int k) = Inr (ps ! k)"
    and "fetch st (int m) = Inl e"
    and "j \<le> m"
  shows "for_loop \<lparr>iter_store = st, iter_i = int j - 1\<rparr> acc out
           = Some (acc @ drop j ps, if e = StopIteration then Exhausted else Failed e,
                   out @ [(''== DescriptaStoreIter Failed at index'', int m)])"
  using assms(5)
proof (induction "m - j" arbitrary: j acc)
  case 0
  then have j: "j = m" by simp
  let ?it = "\<lparr>iter_store = st, iter_i = int j - 1\<rparr>"
  have "next ?it = (Inl e, \<lparr>iter_store = st, iter_i = int j\<rparr>,
                     [(''== DescriptaStoreIter Failed at index'', int m)])"
    using next_failed [of ?it e] assms(1,4) j by simp
  then show ?case
    using assms(2) j by (subst for_loop.simps) simp
next
  case (Suc d)
  then have j: "j < m" by simp
  let ?it = "\<lparr>iter_store = st, iter_i = int j - 1\<rparr>"
  have f: "fetch st (int j) = Inr (ps ! j)"
    using assms(3) j by simp
  have n: "next ?it = (Inr (ps ! j), \<lparr>iter_store = st, iter_i = int (Suc j) - 1\<rparr>, [])"
    using next_row [of ?it "ps ! j"] f j assms(1) by simp
  have ih: "for_loop \<lparr>iter_store = st, iter_i = int (Suc j) - 1\<rparr> (acc @ [ps ! j]) out
              = Some ((acc @ [ps ! j]) @ drop (Suc j) ps,
                      if e = StopIteration then Exhausted else Failed e,
                      out @ [(''== DescriptaStoreIter Failed at index'', int m)])"
    using Suc.hyps(1) [of "Suc j" "acc @ [ps ! j]"] Suc.hyps(2) j by simp
  have d: "ps ! j # drop (Suc j) ps = drop j ps"
    using j assms(2) by (simp add: Cons_nth_drop_Suc)
  show ?case
    using n ih d by (subst for_loop.simps) simp
qed

lemma fetch_pair:
  "fetch st k = Inr (r, v) \<longleftrightarrow> index_get (index st) k = Inr r \<and> getDescriptors st k False = Inr v"
  by (auto simp: fetch_def split: sum.splits)

text \<open>
  From a fresh iterator either every fetch below the row count answers, or there is a
  first ordinal whose fetch raises.
\<close>

lemma fetch_cases:
  "(\<exists>ps. length ps = len st \<and> (\<forall>k<len st. fetch st (int k) = Inr (ps ! k)))
   \<or> (\<exists>ps m e. m < len st \<and> length ps = m \<and> (\<forall>k<m. fetch st (int k) = Inr (ps ! k))
          \<and> fetch st (int m) = Inl e)"
proof (cases "\<exists>k<len st. \<exists>e. fetch st (int k) = Inl e")
  case True
  define m where "m = (LEAST k. k < len st \<and> (\<exists>e. fetch st (int k) = Inl e))"
  from True have "\<exists>k. k < len st \<and> (\<exists>e. fetch st (int k) = Inl e)"
    by blast
  then have m: "m < len st \<and> (\<exists>e. fetch st (int m) = Inl e)"
    unfolding m_def by (rule LeastI_ex)
  then obtain e where e: "fetch st (int m) = Inl e"
    by blast
  have before: "\<exists>p. fetch st (int k) = Inr p" if "k < m" for k
  proof (cases "fetch st (int k)")
    case (Inl e')
    with that m have "k < len st \<and> (\<exists>e. fetch st (int k) = Inl e)"
      by auto
    then have "m \<le> k"
      unfolding m_def by (rule Least_le)
    with that show ?thesis by simp
  next
    case (Inr p)
    then show ?thesis by blast
  qed
  let ?ps = "map (\<lambda>k. projr (fetch st (int k))) [0..<m]"
  have "fetch st (int k) = Inr (?ps ! k)" if "k < m" for k
    using before [OF that] that by auto
  with m e have "m < len st \<and> length ?ps = m \<and> (\<forall>k<m. fetch st (int k) = Inr (?ps ! k))
          \<and> fetch st (int m) = Inl e"
    by simp
  then show ?thesis by blast
next
  case False
  let ?ps = "map (\<lambda>k. projr (fetch st (int k))) [0..<len st]"
  have "fetch st (int k) = Inr (?ps ! k)" if "k < len st" for k
  proof (cases "fetch st (int k)")
    case (Inl e)
    with that False show ?thesis by blast
  next
    case (Inr p)
    with that show ?thesis by simp
  qed
  then have "length ?ps = len st \<and> (\<forall>k<len st. fetch st (int k) = Inr (?ps ! k))"
    by simp
  then show ?thesis by blast
qed

lemma iterate_all:
  assumes "length ps = len st" and "\<forall>k<len st. fetch st (int k) = Inr (ps ! k)"
  shows "iterate Python2 st = Some (ps, Exhausted, [])"
  using for_loop_exhausts [OF assms, of 0 "[]" "[]"] by (simp add: iterate_def iter_def)

lemma iterate_first_failure:
  assumes "m < len st" and "length ps = m" and "\<forall>k<m. fetch st (int k) = Inr (ps ! k)"
    and "fetch st (int m) = Inl e"
  shows "iterate Python2 st
           = Some (ps, if e = StopIteration then Exhausted else Failed e,
                   [(''== DescriptaStoreIter Failed at index'', int m)])"
  using for_loop_fails [OF assms, of 0 "[]" "[]"] by (simp add: iterate_def iter_def)

text \<open>
  Under the protocol of Python 3 the class is not an iterator, and the statement
  raises before any pair is received.
\<close>

lemma iterate_python3: "iterate Python3 st = Some ([], Failed TypeError, [])"
  by (simp add: iterate_def)

text \<open>
  C3, as stated, fails in its last part: the exception that leaves the loop is the
  one the fetch raised, unchanged. The first two stores below fail at ordinal 0 and
  at ordinal 1 with the same \<^verbatim>\<open>IndexError\<close>, so the exception does not tell the
  ordinal; only the printed line does. On the third store the fetch at ordinal 0
  raises \<^verbatim>\<open>StopIteration\<close>, and the loop ends as if the store had no rows, with no
  exception at all.
\<close>

theorem iteration_error_without_ordinal_counterexample:
  "iterate Python2 short0_store
     = Some ([], Failed (IndexError ''list index out of range'' []),
             [(''== DescriptaStoreIter Failed at index'', 0)])
   \<and> iterate Python2 short1_store
     = Some ([((''CCO'', ''A''), [''12.3'', ''1.1''])],
             Failed (IndexError ''list index out of range'' []),
             [(''== DescriptaStoreIter Failed at index'', 1)])
   \<and> len stopping_store = 2
   \<and> iterate Python2 stopping_store
     = Some ([], Exhausted, [(''== DescriptaStoreIter Failed at index'', 0)])"
proof -
  have 0: "iterate Python2 short0_store
     = Some ([], Failed (IndexError ''list index out of range'' []),
             [(''== DescriptaStoreIter Failed at index'', 0)])"
    by (simp add: iterate_def iter_def for_loop.simps next_def len_def fetch_def
        getDescriptors_def short0_store_def example_store_def example_db_def example_index_def)
  have 1: "iterate Python2 short1_store
     = Some ([((''CCO'', ''A''), [''12.3'', ''1.1''])],
             Failed (IndexError ''list index out of range'' []),
             [(''== DescriptaStoreIter Failed at index'', 1)])"
    by (simp add: iterate_def iter_def for_loop.simps next_def len_def fetch_def
        getDescriptors_def short1_store_def example_store_def example_db_def example_index_def)
  have 2: "len stopping_store = 2"
    by (simp add: len_def stopping_store_def example_store_def example_db_def)
  have 3: "iterate Python2 stopping_store
     = Some ([], Exhausted, [(''== DescriptaStoreIter Failed at index'', 0)])"
    by (simp add: iterate_def iter_def for_loop.simps next_def len_def fetch_def
        getDescriptors_def stopping_store_def example_store_def example_db_def example_index_def)
  from 0 1 2 3 show ?thesis by simp
qed

text \<open>
  C3, amended. Under the iterator protocol of Python 2, where the \<^verbatim>\<open>for\<close> statement
  calls \<^verbatim>\<open>next\<close> until it raises, the loop over a store of \<open>N\<close> rows always
  terminates. When the fetches at all ordinals \<open>0 .. N - 1\<close> answer, it has received
  exactly those \<open>N\<close> pairs in order, each the index's record with the flags-excluded
  descriptors, it ends by \<^verbatim>\<open>StopIteration\<close> with nothing printed, and it ends so
  only in that case. When the first fetch to raise is the one at ordinal \<open>m\<close>, it
  has received the pairs before \<open>m\<close>, one line was printed, holding \<open>m\<close>, and the
  exception of the fetch leaves the loop unchanged; when that exception is itself
  \<^verbatim>\<open>StopIteration\<close>, the loop ends as at the end of the sequence.
\<close>

theorem iterate_rows_in_order:
  "(\<forall>ps. length ps = len st \<and> (\<forall>k<len st. fetch st (int k) = Inr (ps ! k))
        \<longrightarrow> iterate Python2 st = Some (ps, Exhausted, []))
   \<and> (\<forall>ps m e. m < len st \<and> length ps = m \<and> (\<forall>k<m. fetch st (int k) = Inr (ps ! k))
          \<and> fetch st (int m) = Inl e
        \<longrightarrow> iterate Python2 st
              = Some (ps, if e = StopIteration then Exhausted else Failed e,
                      [(''== DescriptaStoreIter Failed at index'', int m)]))
   \<and> (\<exists>r. iterate Python2 st = Some r)
   \<and> (\<forall>ps. iterate Python2 st = Some (ps, Exhausted, [])
        \<longrightarrow> length ps = len st \<and> (\<forall>k<len st. fetch st (int k) = Inr (ps ! k)))
   \<and> (\<forall>k r v. fetch st k = Inr (r, v)
         \<longleftrightarrow> index_get (index st) k = Inr r \<and> getDescriptors st k False = Inr v)"
proof -
  have a: "\<forall>ps. length ps = len st \<and> (\<forall>k<len st. fetch st (int k) = Inr (ps ! k))
        \<longrightarrow> iterate Python2 st = Some (ps, Exhausted, [])"
    using iterate_all [of _ st] by blast
  have b: "\<forall>ps m e. m < len st \<and> length ps = m \<and> (\<forall>k<m. fetch st (int k) = Inr (ps ! k))
          \<and> fetch st (int m) = Inl e
        \<longrightarrow> iterate Python2 st
              = Some (ps, if e = StopIteration then Exhausted else Failed e,
                      [(''== DescriptaStoreIter Failed at index'', int m)])"
    using iterate_first_failure [of _ st] by blast
  have c: "\<exists>r. iterate Python2 st = Some r"
    using fetch_cases [of st] a b by metis
  have d: "length ps = len st \<and> (\<forall>k<len st. fetch st (int k) = Inr (ps ! k))"
    if clean: "iterate Python2 st = Some (ps, Exhausted, [])" for ps
    using fetch_cases [of st]
  proof
    assume "\<exists>qs. length qs = len st \<and> (\<forall>k<len st. fetch st (int k) = Inr (qs ! k))"
    then obtain qs where qs: "length qs = len st" "\<forall>k<len st. fetch st (int k) = Inr (qs ! k)"
      by blast
    then have "iterate Python2 st = Some (qs, Exhausted, [])"
      by (rule iterate_all)
    with clean have "ps = qs" by simp
    with qs show ?thesis by simp
  next
    assume "\<exists>qs m e. m < len st \<and> length qs = m \<and> (\<forall>k<m. fetch st (int k) = Inr (qs ! k))
          \<and> fetch st (int m) = Inl e"
    then obtain qs m e where "m < len st" "length qs = m"
      "\<forall>k<m. fetch st (int k) = Inr (qs ! k)" "fetch st (int m) = Inl e"
      by blast
    then have "iterate Python2 st
           = Some (qs, if e = StopIteration then Exhausted else Failed e,
                   [(''== DescriptaStoreIter Failed at index'', int m)])"
      by (rule iterate_first_failure)
    with clean show ?thesis by simp
  qed
  from a b c d fetch_pair [of st] show ?thesis by blast
qed

theorem iterate_rows_in_order_witness:
  "iterate Python2 example_store
     = Some ([((''CCO'', ''A''), [''12.3'', ''1.1'']), ((''CCN'', ''B''), [''4.5'', ''0.2''])],
             Exhausted, [])
   \<and> len example_store = 2
   \<and> fetch short1_store 1 = Inl (IndexError ''list index out of range'' [])
   \<and> iterate Python2 short1_store
     = Some ([((''CCO'', ''A''), [''12.3'', ''1.1''])],
             Failed (IndexError ''list index out of range'' []),
             [(''== DescriptaStoreIter Failed at index'', 1)])
   \<and> fetch stopping_store 0 = Inl StopIteration
   \<and> iterate Python2 stopping_store
     = Some ([], Exhausted, [(''== DescriptaStoreIter Failed at index'', 0)])"
proof -
  let ?ps = "[((''CCO'', ''A''), [''12.3'', ''1.1'']), ((''CCN'', ''B''), [''4.5'', ''0.2''])]"
  have l: "len example_store = 2"
    by (simp add: len_def example_store_def example_db_def)
  have f0: "fetch example_store 0 = Inr ((''CCO'', ''A''), [''12.3'', ''1.1''])"
    by (simp add: fetch_def getDescriptors_def example_store_def example_db_def example_index_def)
  have f1: "fetch example_store 1 = Inr ((''CCN'', ''B''), [''4.5'', ''0.2''])"
    by (simp add: fetch_def getDescriptors_def example_store_def example_db_def example_index_def)
  have all: "\<forall>k<len example_store. fetch example_store (int k) = Inr (?ps ! k)"
    using l f0 f1 by (simp add: less_Suc_eq numeral_2_eq_2)
  have len: "length ?ps = len example_store"
    using l by simp
  from iterate_rows_in_order [of example_store] len all
  have 1: "iterate Python2 example_store = Some (?ps, Exhausted, [])"
    by blast
  let ?qs = "[((''CCO'', ''A''), [''12.3'', ''1.1''])]"
  let ?e = "IndexError ''list index out of range'' []"
  have l': "(1::nat) < len short1_store"
    by (simp add: len_def short1_store_def example_store_def example_db_def)
  have g0: "\<forall>k<1. fetch short1_store (int k) = Inr (?qs ! k)"
    by (simp add: fetch_def getDescriptors_def short1_store_def example_store_def example_db_def
        example_index_def)
  have g1: "fetch short1_store (int 1) = Inl ?e"
    by (simp add: fetch_def getDescriptors_def short1_store_def example_store_def example_db_def
        example_index_def)
  have len': "length ?qs = 1" by simp
  from iterate_rows_in_order [of short1_store] l' len' g0 g1
  have "iterate Python2 short1_store
     = Some (?qs, if ?e = StopIteration then Exhausted else Failed ?e,
             [(''== DescriptaStoreIter Failed at index'', int 1)])"
    by blast
  then have 2: "iterate Python2 short1_store
     = Some (?qs, Failed ?e, [(''== DescriptaStoreIter Failed at index'', 1)])"
    by simp
  have l'': "(0::nat) < len stopping_store"
    by (simp add: len_def stopping_store_def example_store_def example_db_def)
  have s0: "fetch stopping_store (int 0) = Inl StopIteration"
    by (simp add: fetch_def stopping_store_def example_store_def example_index_def)
  have none: "length ([] :: ((string \<times> string) \<times> string list) list) = 0"
    "\<forall>k<0. fetch stopping_store (int k)
        = Inr (([] :: ((string \<times> string) \<times> string list) list) ! k)"
    by simp_all
  from iterate_rows_in_order [of stopping_store] l'' none s0
  have "iterate Python2 stopping_store
     = Some ([], if StopIteration = StopIteration then Exhausted else Failed StopIteration,
             [(''== DescriptaStoreIter Failed at index'', int 0)])"
    by blast
  then have 3: "iterate Python2 stopping_store
     = Some ([], Exhausted, [(''== DescriptaStoreIter Failed at index'', 0)])"
    by simp
  from 1 l g1 2 s0 3 show ?thesis by simp
qed

subsection \<open>Content-key lookup\<close>

lemma lookupInchiKey_none:
  "inchikey st = Assigned None \<Longrightarrow>
     lookupInchiKey py_eval st key = (Inl (ValueError ''Inchi index not available''), st)"
  by (simp add: lookupInchiKey_def)

lemma lookupInchiKey_absent:
  "inchikey st = Assigned (Some h) \<Longrightarrow> kc_records h key = None \<Longrightarrow>
     lookupInchiKey py_eval st key = (Inl (KeyError key), st)"
  by (simp add: lookupInchiKey_def)

text \<open>
  C1, as stated, fails: a key whose stored text is \<^verbatim>\<open>7\<close>, which is not the text of a
  collection of ordinals, is answered with the integer 7 and no exception.
\<close>

theorem lookupInchiKey_malformed_counterexample:
  "inchikey keyed_store = Assigned (Some (kyoto_open
       [''BCWYEXBNOWJQJV-UHFFFAOYSA-N'' \<mapsto> ''[3, 7, 9]'',
        ''LFQSCWFLJHTTHZ-UHFFFAOYSA-N'' \<mapsto> ''7''] READONLY))
   \<and> example_eval ''7'' keyed_store = (Inr (PyInt 7), keyed_store)
   \<and> \<not> is_ordinals (PyInt 7)
   \<and> lookupInchiKey example_eval keyed_store ''LFQSCWFLJHTTHZ-UHFFFAOYSA-N''
       = (Inr (PyInt 7), keyed_store)"
  by (simp add: keyed_store_def example_eval_def lookupInchiKey_def kyoto_open_def)

text \<open>
  C1, amended. For a key that the content-key index holds, \<^verbatim>\<open>lookupInchiKey\<close>
  answers what \<^verbatim>\<open>eval\<close> of the whole stored text answers and raises what it raises,
  and leaves the facade that the evaluation leaves, for every evaluator: the stored
  text is not validated, and no exception of the method's own reports a malformed
  value.
\<close>

theorem lookupInchiKey_answers_eval:
  assumes "inchikey st = Assigned (Some h)" and "kc_records h key = Some strres"
  shows "lookupInchiKey py_eval st key = py_eval strres st"
  using assms by (simp add: lookupInchiKey_def)

theorem lookupInchiKey_answers_eval_witness:
  "lookupInchiKey example_eval keyed_store ''BCWYEXBNOWJQJV-UHFFFAOYSA-N''
     = (Inr (PyList [PyInt 3, PyInt 7, PyInt 9]), keyed_store)
   \<and> is_ordinals (PyList [PyInt 3, PyInt 7, PyInt 9])"
proof -
  let ?h = "kyoto_open
       [''BCWYEXBNOWJQJV-UHFFFAOYSA-N'' \<mapsto> ''[3, 7, 9]'',
        ''LFQSCWFLJHTTHZ-UHFFFAOYSA-N'' \<mapsto> ''7''] READONLY"
  have a: "inchikey keyed_store = Assigned (Some ?h)"
    by (simp add: keyed_store_def)
  have b: "kc_records ?h ''BCWYEXBNOWJQJV-UHFFFAOYSA-N'' = Some ''[3, 7, 9]''"
    by (simp add: kyoto_open_def)
  have c: "example_eval ''[3, 7, 9]'' keyed_store
             = (Inr (PyList [PyInt 3, PyInt 7, PyInt 9]), keyed_store)"
    by (simp add: example_eval_def)
  from lookupInchiKey_answers_eval [OF a b, of example_eval] c show ?thesis by simp
qed

text \<open>
  C2. The code departs from the claim: with \<^verbatim>\<open>inchikey.kch\<close> present and
  \<^verbatim>\<open>kyotocabinet\<close> missing, \<^verbatim>\<open>__init__\<close> returns a facade on which
  \<^verbatim>\<open>self.inchikey\<close> was never assigned (the branch for \<^verbatim>\<open>name.kch\<close> assigns
  \<^verbatim>\<open>None\<close>), and \<^verbatim>\<open>lookupInchiKey\<close> raises \<^verbatim>\<open>AttributeError\<close>.
\<close>

theorem init_without_kyotocabinet:
  "DescriptaStore_init nokyoto_fs ''store'' READONLY = Inr nokyoto_store
   \<and> inchikey nokyoto_store = Unassigned
   \<and> lookupInchiKey example_eval nokyoto_store ''BCWYEXBNOWJQJV-UHFFFAOYSA-N''
       = (Inl (AttributeError ''inchikey''), nokyoto_store)"
  by (simp add: DescriptaStore_init_def nokyoto_fs_def nokyoto_store_def example_fs_def
      example_store_def example_db_def datacols_example lookupInchiKey_def)

text \<open>
  C6. The code departs from the claim on the same facade: no content-key handle is
  open, and for every key and evaluator the call raises \<^verbatim>\<open>AttributeError\<close>, not the
  \<^verbatim>\<open>ValueError\<close> of a missing index.
\<close>

theorem lookupInchiKey_unassigned:
  "lookupInchiKey py_eval nokyoto_store key = (Inl (AttributeError ''inchikey''), nokyoto_store)
   \<and> fst (lookupInchiKey py_eval nokyoto_store key)
       \<noteq> Inl (ValueError ''Inchi index not available'')"
  by (simp add: lookupInchiKey_def nokyoto_store_def)

subsection \<open>Close\<close>

text \<open>
  Where \<^verbatim>\<open>self.inchikey\<close> was assigned and \<^verbatim>\<open>self.name\<close> is not a dictionary,
  \<^verbatim>\<open>close\<close> returns and every handle is released.
\<close>

lemma close_releases:
  assumes "inchikey st = Assigned ik" and "\<forall>d. name st \<noteq> Some (NameDict d)"
  shows "fst (close st) = Inr ()"
    and "db_closed (db (snd (close st)))"
    and "index_closed (index (snd (close st)))"
    and "\<forall>h. ik = Some h \<longrightarrow> inchikey (snd (close st)) = Assigned (Some (kyoto_close h))"
    and "\<forall>h. name st = Some (KyotoDB h) \<longrightarrow> name (snd (close st)) = Some (KyotoDB (kyoto_close h))"
  using assms
  by (auto simp: close_def Let_def split: option.splits name_index.splits)

text \<open>
  C7. The code departs from the claim: \<^verbatim>\<open>close\<close> raises \<^verbatim>\<open>AttributeError\<close> on the
  facade opened without \<^verbatim>\<open>kyotocabinet\<close>, where \<^verbatim>\<open>self.inchikey\<close> was never
  assigned, and on a facade whose \<^verbatim>\<open>self.name\<close> is the dictionary that
  \<^verbatim>\<open>lookupName\<close> built, which has no \<^verbatim>\<open>close\<close>.
\<close>

theorem close_raises:
  "fst (close nokyoto_store) = Inl (AttributeError ''inchikey'')
   \<and> name (snd (lookupName decimal_int example_store ''B'')) = Some (NameDict [''A'' \<mapsto> 0, ''B'' \<mapsto> 1])
   \<and> fst (close (snd (lookupName decimal_int example_store ''B''))) = Inl (AttributeError ''close'')"
  by (simp add: close_def nokyoto_store_def lookupName_def Let_def example_store_def
      example_index_def)

end
